theory Spec2Isabelle
  imports Main "HOL-Library.Word"
begin

section \<open>The libsodium binding of LibSodium/c/libsodium.cpp\<close>

text \<open>
  The file holds one addition stub, a probe of the host runtime (left out here: it
  returns the runtime's unit result and nothing is stated about it) and a binding of
  libsodium's IETF ChaCha20-Poly1305: two entry points that call \<^verbatim>\<open>sodium_init\<close>
  and then hand every argument to the library, and three accessors of the library's
  size macros. The cipher itself is libsodium's and is not part of the repository, so
  the library is a parameter of the model: a record of the three routines the binding
  calls, each with the parameter order of its C prototype.
\<close>

subsection \<open>C types\<close>

type_synonym byte = "8 word"
type_synonym bytes = "byte list"
type_synonym uint32_t = "32 word"
type_synonym ulonglong = "64 word"
type_synonym size_t = "64 word"

text \<open>
  An \<^verbatim>\<open>unsigned char *\<close> is modelled by the bytes found at the pointer, an
  \<^verbatim>\<open>unsigned long long *\<close> by the value of the cell it points to. A routine that
  writes through such a pointer takes the old contents and returns the new ones. The C
  \<^verbatim>\<open>int\<close> status is an \<open>int\<close>: the code only compares it with zero.
\<close>

type_synonym outcome = "int \<times> bytes \<times> ulonglong"

subsection \<open>The smoke-test stub\<close>

text \<open>\<^verbatim>\<open>uint32_t my_add(uint32_t a, uint32_t b) { return a + b; }\<close>\<close>

definition my_add :: "uint32_t \<Rightarrow> uint32_t \<Rightarrow> uint32_t" where
  "my_add a b = a + b"

subsection \<open>The library\<close>

text \<open>
  The routines of \<^verbatim>\<open>sodium.h\<close> that the binding calls. \<open>'w\<close> is whatever the
  library keeps between calls (its initialisation flag, its entropy source); every
  routine may read and change it. The parameters are those of the C prototypes, in
  their order:
  \<^verbatim>\<open>int sodium_init(void)\<close>,
  \<^verbatim>\<open>crypto_aead_chacha20poly1305_ietf_encrypt(c, clen_p, m, mlen, ad, adlen, nsec, npub, k)\<close>,
  \<^verbatim>\<open>crypto_aead_chacha20poly1305_ietf_decrypt(m, mlen_p, nsec, c, clen, ad, adlen, npub, k)\<close>.
  \<open>nsec\<close> is a pointer that may be \<^verbatim>\<open>NULL\<close>, here \<open>None\<close>.
\<close>

record 'w sodium =
  sodium_init :: "'w \<Rightarrow> int \<times> 'w"
  crypto_aead_chacha20poly1305_ietf_encrypt ::
    "bytes \<Rightarrow> ulonglong \<Rightarrow> bytes \<Rightarrow> ulonglong \<Rightarrow> bytes \<Rightarrow> ulonglong \<Rightarrow>
     bytes option \<Rightarrow> bytes \<Rightarrow> bytes \<Rightarrow> 'w \<Rightarrow> outcome \<times> 'w"
  crypto_aead_chacha20poly1305_ietf_decrypt ::
    "bytes \<Rightarrow> ulonglong \<Rightarrow> bytes option \<Rightarrow> bytes \<Rightarrow> ulonglong \<Rightarrow> bytes \<Rightarrow> ulonglong \<Rightarrow>
     bytes \<Rightarrow> bytes \<Rightarrow> 'w \<Rightarrow> outcome \<times> 'w"

text \<open>
  The three size macros of \<^verbatim>\<open>sodium.h\<close>, which is not among the sources. The spec
  gives their values for IETF ChaCha20-Poly1305.
\<close>

text \<open>Modelled from the spec: the macro \<^verbatim>\<open>crypto_aead_chacha20poly1305_ietf_KEYBYTES\<close>
  of \<^verbatim>\<open>sodium.h\<close>, a 32-byte key.\<close>

definition crypto_aead_chacha20poly1305_ietf_KEYBYTES :: size_t where
  "crypto_aead_chacha20poly1305_ietf_KEYBYTES = 32"

text \<open>Modelled from the spec: the macro \<^verbatim>\<open>crypto_aead_chacha20poly1305_ietf_NPUBBYTES\<close>
  of \<^verbatim>\<open>sodium.h\<close>, a 12-byte nonce.\<close>

definition crypto_aead_chacha20poly1305_ietf_NPUBBYTES :: size_t where
  "crypto_aead_chacha20poly1305_ietf_NPUBBYTES = 12"

text \<open>Modelled from the spec: the macro \<^verbatim>\<open>crypto_aead_chacha20poly1305_ietf_ABYTES\<close>
  of \<^verbatim>\<open>sodium.h\<close>, a 16-byte tag.\<close>

definition crypto_aead_chacha20poly1305_ietf_ABYTES :: size_t where
  "crypto_aead_chacha20poly1305_ietf_ABYTES = 16"

subsection \<open>The binding\<close>

text \<open>
  \<^verbatim>\<open>if (sodium_init() < 0) return -1;\<close>
  \<^verbatim>\<open>return crypto_aead_chacha20poly1305_ietf_encrypt(ciphertext, ciphertext_len, message, message_len, ad, ad_len, NULL, nonce, key);\<close>
\<close>

definition chacha20_poly1305_encrypt ::
  "'w sodium \<Rightarrow> bytes \<Rightarrow> ulonglong \<Rightarrow> bytes \<Rightarrow> ulonglong \<Rightarrow> bytes \<Rightarrow> ulonglong \<Rightarrow>
   bytes \<Rightarrow> bytes \<Rightarrow> 'w \<Rightarrow> outcome \<times> 'w" where
  "chacha20_poly1305_encrypt L ciphertext ciphertext_len message message_len ad ad_len nonce key w =
     (case sodium_init L w of
        (r, w') \<Rightarrow>
          if r < 0 then ((- 1, ciphertext, ciphertext_len), w')
          else crypto_aead_chacha20poly1305_ietf_encrypt L
                 ciphertext ciphertext_len message message_len ad ad_len None nonce key w')"

text \<open>
  \<^verbatim>\<open>if (sodium_init() < 0) return -1;\<close>
  \<^verbatim>\<open>return crypto_aead_chacha20poly1305_ietf_decrypt(message, message_len, NULL, ciphertext, ciphertext_len, ad, ad_len, nonce, key);\<close>
\<close>

definition chacha20_poly1305_decrypt ::
  "'w sodium \<Rightarrow> bytes \<Rightarrow> ulonglong \<Rightarrow> bytes \<Rightarrow> ulonglong \<Rightarrow> bytes \<Rightarrow> ulonglong \<Rightarrow>
   bytes \<Rightarrow> bytes \<Rightarrow> 'w \<Rightarrow> outcome \<times> 'w" where
  "chacha20_poly1305_decrypt L message message_len ciphertext ciphertext_len ad ad_len nonce key w =
     (case sodium_init L w of
        (r, w') \<Rightarrow>
          if r < 0 then ((- 1, message, message_len), w')
          else crypto_aead_chacha20poly1305_ietf_decrypt L
                 message message_len None ciphertext ciphertext_len ad ad_len nonce key w')"

definition chacha20_poly1305_keybytes :: size_t where
  "chacha20_poly1305_keybytes = crypto_aead_chacha20poly1305_ietf_KEYBYTES"

definition chacha20_poly1305_noncebytes :: size_t where
  "chacha20_poly1305_noncebytes = crypto_aead_chacha20poly1305_ietf_NPUBBYTES"

definition chacha20_poly1305_abytes :: size_t where
  "chacha20_poly1305_abytes = crypto_aead_chacha20poly1305_ietf_ABYTES"

subsection \<open>Well-sized calls\<close>

text \<open>
  A call is well sized when each length argument is the length of the bytes at its
  pointer and the nonce and key have the library's lengths. A buffer has room for
  \<open>n\<close> bytes when it holds at least \<open>n\<close> bytes and fits the 64-bit address space.
\<close>

definition lengths_valid ::
  "bytes \<Rightarrow> ulonglong \<Rightarrow> bytes \<Rightarrow> ulonglong \<Rightarrow> bytes \<Rightarrow> bytes \<Rightarrow> bool" where
  "lengths_valid data data_len ad ad_len nonce key \<longleftrightarrow>
     unat data_len = length data \<and> unat ad_len = length ad \<and>
     length nonce = unat crypto_aead_chacha20poly1305_ietf_NPUBBYTES \<and>
     length key = unat crypto_aead_chacha20poly1305_ietf_KEYBYTES"

definition room :: "bytes \<Rightarrow> nat \<Rightarrow> bool" where
  "room buffer n \<longleftrightarrow> n \<le> length buffer \<and> length buffer < 2 ^ 64"

subsection \<open>What libsodium promises\<close>

text \<open>
  The properties of the routines that the binding relies on, each as a predicate on
  the library, stated on the library's own routines. Both routines return 0 or -1,
  whatever they are given. The other three are promised for well-sized calls with
  \<^verbatim>\<open>nsec = NULL\<close>: a successful encryption sets \<^verbatim>\<open>*clen_p = mlen + ABYTES\<close> and
  writes no byte past that length; encryption succeeds, and decryption of what it
  produced, under the same associated data, nonce and key, succeeds and yields the
  message; and the ciphertext depends on the inputs only, not on the library state or
  on what the output buffer held.
\<close>

definition returns_0_or_minus_1 :: "'w sodium \<Rightarrow> bool" where
  "returns_0_or_minus_1 L \<longleftrightarrow>
     (\<forall>c clen_p m mlen ad adlen nsec npub k w.
        fst (fst (crypto_aead_chacha20poly1305_ietf_encrypt L c clen_p m mlen ad adlen nsec npub k w)) = 0 \<or>
        fst (fst (crypto_aead_chacha20poly1305_ietf_encrypt L c clen_p m mlen ad adlen nsec npub k w)) = - 1) \<and>
     (\<forall>m mlen_p nsec c clen ad adlen npub k w.
        fst (fst (crypto_aead_chacha20poly1305_ietf_decrypt L m mlen_p nsec c clen ad adlen npub k w)) = 0 \<or>
        fst (fst (crypto_aead_chacha20poly1305_ietf_decrypt L m mlen_p nsec c clen ad adlen npub k w)) = - 1)"


definition decrypt_inverts_encrypt :: "'w sodium \<Rightarrow> bool" where
  "decrypt_inverts_encrypt L \<longleftrightarrow>
     (\<forall>c clen_p m mlen ad adlen npub k w p plen_p w2.
        lengths_valid m mlen ad adlen npub k \<longrightarrow>
        room c (length m + unat crypto_aead_chacha20poly1305_ietf_ABYTES) \<longrightarrow>
        room p (length m) \<longrightarrow>
        (\<exists>c' clen w'.
           crypto_aead_chacha20poly1305_ietf_encrypt L c clen_p m mlen ad adlen None npub k w =
             ((0, c', clen), w') \<and>
           (\<exists>m' mlen' w3.
              crypto_aead_chacha20poly1305_ietf_decrypt L p plen_p None
                (take (unat clen) c') clen ad adlen npub k w2 = ((0, m', mlen'), w3) \<and>
              take (unat mlen') m' = m)))"


subsection \<open>A stand-in library\<close>

text \<open>
  A small library on which the statements below are evaluated at concrete inputs.
  It is not a cipher: encryption copies the message and appends sixteen zero bytes
  as the tag, decryption accepts exactly the ciphertexts that end in sixteen zero
  bytes. Its initialisation follows the documented results of \<^verbatim>\<open>sodium_init\<close>: -1
  when it cannot initialise, 0 on the first success, 1 afterwards.
\<close>

datatype stub_state = Unavailable | Fresh | Ready

definition stub_init :: "stub_state \<Rightarrow> int \<times> stub_state" where
  "stub_init w = (case w of Unavailable \<Rightarrow> (- 1, Unavailable) | Fresh \<Rightarrow> (0, Ready) | Ready \<Rightarrow> (1, Ready))"

definition stub_encrypt ::
  "bytes \<Rightarrow> ulonglong \<Rightarrow> bytes \<Rightarrow> ulonglong \<Rightarrow> bytes \<Rightarrow> ulonglong \<Rightarrow>
   bytes option \<Rightarrow> bytes \<Rightarrow> bytes \<Rightarrow> stub_state \<Rightarrow> outcome \<times> stub_state" where
  "stub_encrypt c clen_p m mlen ad adlen nsec npub k w =
     ((0, take (unat mlen) m @ replicate 16 0 @ drop (unat mlen + 16) c, mlen + 16), w)"

definition stub_decrypt ::
  "bytes \<Rightarrow> ulonglong \<Rightarrow> bytes option \<Rightarrow> bytes \<Rightarrow> ulonglong \<Rightarrow> bytes \<Rightarrow> ulonglong \<Rightarrow>
   bytes \<Rightarrow> bytes \<Rightarrow> stub_state \<Rightarrow> outcome \<times> stub_state" where
  "stub_decrypt m mlen_p nsec c clen ad adlen npub k w =
     (if 16 \<le> unat clen \<and> drop (unat clen - 16) (take (unat clen) c) = replicate 16 0
      then ((0, take (unat clen - 16) c @ drop (unat clen - 16) m, clen - 16), w)
      else ((- 1, m, mlen_p), w))"

definition stub_sodium :: "stub_state sodium" where
  "stub_sodium =
     \<lparr>sodium_init = stub_init,
      crypto_aead_chacha20poly1305_ietf_encrypt = stub_encrypt,
      crypto_aead_chacha20poly1305_ietf_decrypt = stub_decrypt\<rparr>"

section \<open>Auxiliary facts\<close>

text \<open>
  The binding is the library call behind one guard: it returns -1 with the outputs as
  they were when \<^verbatim>\<open>sodium_init\<close> fails, and the library's result otherwise.
\<close>

lemma encrypt_init_failed:
  "fst (sodium_init L w) < 0 \<Longrightarrow>
   chacha20_poly1305_encrypt L c cl m ml ad al n k w = ((- 1, c, cl), snd (sodium_init L w))"
  by (simp add: chacha20_poly1305_encrypt_def case_prod_unfold)

lemma encrypt_init_ok:
  "0 \<le> fst (sodium_init L w) \<Longrightarrow>
   chacha20_poly1305_encrypt L c cl m ml ad al n k w =
   crypto_aead_chacha20poly1305_ietf_encrypt L c cl m ml ad al None n k (snd (sodium_init L w))"
  by (simp add: chacha20_poly1305_encrypt_def case_prod_unfold)

lemma decrypt_init_failed:
  "fst (sodium_init L w) < 0 \<Longrightarrow>
   chacha20_poly1305_decrypt L m ml c cl ad al n k w = ((- 1, m, ml), snd (sodium_init L w))"
  by (simp add: chacha20_poly1305_decrypt_def case_prod_unfold)

lemma decrypt_init_ok:
  "0 \<le> fst (sodium_init L w) \<Longrightarrow>
   chacha20_poly1305_decrypt L m ml c cl ad al n k w =
   crypto_aead_chacha20poly1305_ietf_decrypt L m ml None c cl ad al n k (snd (sodium_init L w))"
  by (simp add: chacha20_poly1305_decrypt_def case_prod_unfold)



lemma decrypt_inverts_encryptD:
  assumes "decrypt_inverts_encrypt L"
    and "lengths_valid m mlen ad adlen npub k"
    and "room c (length m + unat crypto_aead_chacha20poly1305_ietf_ABYTES)"
    and "room p (length m)"
  shows "\<exists>c' clen w'.
           crypto_aead_chacha20poly1305_ietf_encrypt L c clen_p m mlen ad adlen None npub k w =
             ((0, c', clen), w') \<and>
           (\<exists>m' mlen' w3.
              crypto_aead_chacha20poly1305_ietf_decrypt L p plen_p None
                (take (unat clen) c') clen ad adlen npub k w2 = ((0, m', mlen'), w3) \<and>
              take (unat mlen') m' = m)"
  using assms unfolding decrypt_inverts_encrypt_def by blast


text \<open>
  The stand-in library keeps every promise above.
\<close>

lemma stub_returns_0_or_minus_1: "returns_0_or_minus_1 stub_sodium"
  by (simp add: returns_0_or_minus_1_def stub_sodium_def stub_encrypt_def stub_decrypt_def)

lemma unat_plus_16:
  fixes n :: ulonglong
  assumes "unat n + 16 < 2 ^ 64"
  shows "unat (n + 16) = unat n + 16"
  using assms by (simp add: unat_word_ariths)




lemma stub_inverts: "decrypt_inverts_encrypt stub_sodium"
  by (auto simp: decrypt_inverts_encrypt_def stub_sodium_def stub_encrypt_def stub_decrypt_def
      lengths_valid_def room_def crypto_aead_chacha20poly1305_ietf_ABYTES_def unat_plus_16
      unat_sub word_le_nat_alt)

section \<open>Properties\<close>

subsection \<open>Round trip\<close>

text \<open>
  C1. For a key of \<open>KeyBytes\<close> bytes, a nonce of \<open>NonceBytes\<close> bytes, any
  plaintext and any associated data, encryption succeeds, and decrypting the
  ciphertext it produced (the first \<open>clen\<close> bytes of the output buffer, with the
  reported length) under the same key, nonce and associated data succeeds and returns
  the plaintext. The cipher is libsodium's: the statement holds for every library
  whose decryption inverts its encryption, when \<^verbatim>\<open>sodium_init\<close> succeeds at both
  calls and the two output buffers have room.
\<close>

theorem decrypt_after_encrypt:
  assumes lib: "decrypt_inverts_encrypt L"
    and init: "0 \<le> fst (sodium_init L w)" "0 \<le> fst (sodium_init L w2)"
    and valid: "lengths_valid message message_len ad ad_len nonce key"
    and cap: "room ciphertext (length message + unat chacha20_poly1305_abytes)"
      "room plain (length message)"
  shows "\<exists>c clen w' m mlen w3.
           chacha20_poly1305_encrypt L ciphertext ciphertext_len message message_len
             ad ad_len nonce key w = ((0, c, clen), w') \<and>
           chacha20_poly1305_decrypt L plain plain_len (take (unat clen) c) clen
             ad ad_len nonce key w2 = ((0, m, mlen), w3) \<and>
           take (unat mlen) m = message"
proof -
  from cap have cap': "room ciphertext (length message + unat crypto_aead_chacha20poly1305_ietf_ABYTES)"
    by (simp add: chacha20_poly1305_abytes_def)
  from decrypt_inverts_encryptD [OF lib valid cap' cap(2),
      of ciphertext_len "snd (sodium_init L w)" plain_len "snd (sodium_init L w2)"]
  show ?thesis
    unfolding encrypt_init_ok [OF init(1)] decrypt_init_ok [OF init(2)] by blast
qed

text \<open>
  The spec's scenario on the stand-in library: a key of 32 zero bytes, a nonce of 12
  zero bytes, the plaintext "hello" and no associated data give 21 bytes, which
  decrypt to "hello".
\<close>

theorem decrypt_after_encrypt_witness:
  "chacha20_poly1305_encrypt stub_sodium (replicate 21 7) 9 [104, 101, 108, 108, 111] 5 [] 0
     (replicate 12 0) (replicate 32 0) Fresh =
     ((0, [104, 101, 108, 108, 111] @ replicate 16 0, 21), Ready) \<and>
   chacha20_poly1305_decrypt stub_sodium (replicate 5 7) 9
     (take (unat (21 :: ulonglong)) ([104, 101, 108, 108, 111] @ replicate 16 0)) 21 [] 0
     (replicate 12 0) (replicate 32 0) Ready = ((0, [104, 101, 108, 108, 111], 5), Ready)"
proof -
  have valid: "lengths_valid [104, 101, 108, 108, 111] 5 [] 0 (replicate 12 0) (replicate 32 0)"
    by (simp add: lengths_valid_def crypto_aead_chacha20poly1305_ietf_NPUBBYTES_def
        crypto_aead_chacha20poly1305_ietf_KEYBYTES_def)
  have cap: "room (replicate 21 7) (length [104 :: byte, 101, 108, 108, 111] + unat chacha20_poly1305_abytes)"
    "room (replicate 5 7) (length [104 :: byte, 101, 108, 108, 111])"
    by (simp_all add: room_def chacha20_poly1305_abytes_def crypto_aead_chacha20poly1305_ietf_ABYTES_def)
  have init: "0 \<le> fst (sodium_init stub_sodium Fresh)" "0 \<le> fst (sodium_init stub_sodium Ready)"
    by (simp_all add: stub_sodium_def stub_init_def)
  from decrypt_after_encrypt [OF stub_inverts init valid cap, of 9 9]
  show ?thesis
    by (simp add: chacha20_poly1305_encrypt_def chacha20_poly1305_decrypt_def
        stub_sodium_def stub_init_def stub_encrypt_def stub_decrypt_def)
qed

subsection \<open>Ciphertext length\<close>



subsection \<open>Accessors\<close>

text \<open>
  C5. The three accessors are constants: the key length is 32, the nonce length 12 and
  the tag length 16. They take no argument and no library state, so no earlier call
  can change them.
\<close>

theorem accessors_constant:
  "chacha20_poly1305_keybytes = 32 \<and> chacha20_poly1305_noncebytes = 12 \<and>
   chacha20_poly1305_abytes = 16"
  by (simp add: chacha20_poly1305_keybytes_def chacha20_poly1305_noncebytes_def
      chacha20_poly1305_abytes_def crypto_aead_chacha20poly1305_ietf_KEYBYTES_def
      crypto_aead_chacha20poly1305_ietf_NPUBBYTES_def
      crypto_aead_chacha20poly1305_ietf_ABYTES_def)

subsection \<open>Initialisation failure\<close>

text \<open>
  C6. When \<^verbatim>\<open>sodium_init\<close> fails, \<open>Encrypt\<close> returns -1 and the ciphertext buffer
  and length cell hold what they held before; the result is the same whatever the
  library's encryption routine \<open>e\<close> is, so that routine has no part in it. The same
  holds for \<open>Decrypt\<close>, its plaintext buffer and length cell, and any decryption
  routine \<open>d\<close>.
\<close>

theorem init_failure_leaves_outputs:
  assumes "fst (sodium_init L w) < 0"
  shows "chacha20_poly1305_encrypt (L\<lparr>crypto_aead_chacha20poly1305_ietf_encrypt := e\<rparr>)
           ciphertext ciphertext_len message message_len ad ad_len nonce key w =
         ((- 1, ciphertext, ciphertext_len), snd (sodium_init L w)) \<and>
         chacha20_poly1305_decrypt (L\<lparr>crypto_aead_chacha20poly1305_ietf_decrypt := d\<rparr>)
           plain plain_len sealed sealed_len ad' ad_len' nonce' key' w =
         ((- 1, plain, plain_len), snd (sodium_init L w))"
  using assms by (simp add: encrypt_init_failed decrypt_init_failed)

theorem init_failure_leaves_outputs_witness:
  "chacha20_poly1305_encrypt stub_sodium (replicate 21 7) 9 [104, 101, 108, 108, 111] 5 [] 0
     (replicate 12 0) (replicate 32 0) Unavailable = ((- 1, replicate 21 7, 9), Unavailable) \<and>
   chacha20_poly1305_decrypt stub_sodium (replicate 5 7) 9
     ([104, 101, 108, 108, 111] @ replicate 16 0) 21 [] 0
     (replicate 12 0) (replicate 32 0) Unavailable = ((- 1, replicate 5 7, 9), Unavailable)"
  using init_failure_leaves_outputs [of stub_sodium Unavailable stub_encrypt
      "replicate 21 7" 9 "[104, 101, 108, 108, 111]" 5 "[]" 0 "replicate 12 0" "replicate 32 0"
      stub_decrypt "replicate 5 7" 9 "[104, 101, 108, 108, 111] @ replicate 16 0" 21 "[]" 0
      "replicate 12 0" "replicate 32 0"]
  by (simp add: stub_sodium_def stub_init_def)

subsection \<open>Determinism\<close>



subsection \<open>Status codes\<close>

text \<open>
  C9. The binding checks no argument and no length: for every input, well sized or not,
  \<open>Encrypt\<close> and \<open>Decrypt\<close> return -1 with untouched outputs when
  \<^verbatim>\<open>sodium_init\<close> fails and otherwise exactly what the library routine returns for
  the same arguments. With a library that returns 0 or -1, so do they; there is no
  third status.
\<close>

theorem status_is_init_or_library:
  assumes "returns_0_or_minus_1 L"
  shows "chacha20_poly1305_encrypt L ciphertext ciphertext_len message message_len ad ad_len nonce key w =
           (if fst (sodium_init L w) < 0 then ((- 1, ciphertext, ciphertext_len), snd (sodium_init L w))
            else crypto_aead_chacha20poly1305_ietf_encrypt L ciphertext ciphertext_len
                   message message_len ad ad_len None nonce key (snd (sodium_init L w))) \<and>
         chacha20_poly1305_decrypt L plain plain_len sealed sealed_len ad' ad_len' nonce' key' w =
           (if fst (sodium_init L w) < 0 then ((- 1, plain, plain_len), snd (sodium_init L w))
            else crypto_aead_chacha20poly1305_ietf_decrypt L plain plain_len None
                   sealed sealed_len ad' ad_len' nonce' key' (snd (sodium_init L w))) \<and>
         (fst (fst (chacha20_poly1305_encrypt L ciphertext ciphertext_len message message_len
                      ad ad_len nonce key w)) = 0 \<or>
          fst (fst (chacha20_poly1305_encrypt L ciphertext ciphertext_len message message_len
                      ad ad_len nonce key w)) = - 1) \<and>
         (fst (fst (chacha20_poly1305_decrypt L plain plain_len sealed sealed_len
                      ad' ad_len' nonce' key' w)) = 0 \<or>
          fst (fst (chacha20_poly1305_decrypt L plain plain_len sealed sealed_len
                      ad' ad_len' nonce' key' w)) = - 1)"
proof (cases "fst (sodium_init L w) < 0")
  case True
  then show ?thesis
    by (simp add: encrypt_init_failed decrypt_init_failed)
next
  case False
  then have ok: "0 \<le> fst (sodium_init L w)"
    by simp
  from assms show ?thesis
    unfolding encrypt_init_ok [OF ok] decrypt_init_ok [OF ok] returns_0_or_minus_1_def
    using False by simp
qed

theorem status_is_init_or_library_witness:
  "chacha20_poly1305_encrypt stub_sodium (replicate 21 7) 9 [104, 101, 108, 108, 111] 5 [] 0
     [] [] Fresh = ((0, [104, 101, 108, 108, 111] @ replicate 16 0, 21), Ready) \<and>
   chacha20_poly1305_decrypt stub_sodium (replicate 5 7) 9 [1, 2, 3] 3 [] 0
     [] [] Ready = ((- 1, replicate 5 7, 9), Ready)"
  using status_is_init_or_library [OF stub_returns_0_or_minus_1, of
      "replicate 21 7" 9 "[104, 101, 108, 108, 111]" 5 "[]" 0 "[]" "[]" Fresh]
    status_is_init_or_library [OF stub_returns_0_or_minus_1, of
      _ _ _ _ _ _ _ _ Ready "replicate 5 7" 9 "[1, 2, 3]" 3 "[]" 0 "[]" "[]"]
  by (simp add: stub_sodium_def stub_init_def stub_encrypt_def stub_decrypt_def)

subsection \<open>The addition stub\<close>

text \<open>
  C10. \<open>my_add\<close> returns the sum of its arguments modulo \<open>2 ^ 32\<close>: it wraps on
  overflow. It is a function of its two arguments only.
\<close>

theorem my_add_wraps:
  "unat (my_add a b) = (unat a + unat b) mod 2 ^ 32"
  by (simp add: my_add_def unat_word_ariths)

end
